theory Spec2Isabelle
  imports Main "HOL-Library.Word"
begin

section \<open>AssetDataList (Source/CesiumEditor/Private/AssetDataList.cpp)\<close>

text \<open>
  The widget keeps three members: the displayed entries \<open>_items\<close>, the object paths
  that were handed in while the asset registry was still scanning
  (\<open>_pendingObjectPaths\<close>), and the list view \<open>_listView\<close> that displays \<open>_items\<close>.
  The list view is created in \<open>Construct\<close>, which Slate runs directly after the
  constructor; the only thing this file does to it afterwards is
  \<open>RequestListRefresh()\<close>, so the model keeps the number of refresh requests.
  Isabelle names cannot start with an underscore: \<open>_items\<close> is \<open>items\<close>,
  \<open>_AddAssetInternal\<close> is \<open>AddAssetInternal\<close>, and so on.
\<close>

record 'ad AssetDataList =
  items :: "'ad list"
  pendingObjectPaths :: "string list"
  listRefreshRequests :: nat

text \<open>
  What the functions read from the engine: the asset registry
  (\<open>IsLoadingAssets\<close>, \<open>GetAssetByObjectPath\<close>) and the two \<open>FAssetData\<close> methods
  they call (\<open>GetAsset\<close>, which yields a null pointer when the asset cannot be
  loaded, and \<open>GetFullName\<close>). \<open>'ad\<close> stands for \<open>FAssetData\<close>, \<open>'obj\<close> for
  \<open>UObject\<close>; a null \<open>UObject*\<close> is \<open>None\<close>.
\<close>

record ('ad, 'obj) Engine =
  IsLoadingAssets :: bool
  GetAssetByObjectPath :: "string \<Rightarrow> 'ad"
  GetAsset :: "'ad \<Rightarrow> 'obj option"
  GetFullName :: "'ad \<Rightarrow> string"

text \<open>
  The \<open>UE_LOG\<close> calls of the three functions, one constructor per format string, with
  the argument that is printed. Logging is an effect outside the widget, so the
  functions return the lines they wrote next to the new widget state.
\<close>

datatype ELogVerbosity = Warning | Verbose

datatype LogMessage =
    FinishedLoading                   \<comment> \<open>"Asset registry finished loading, creating assets..."\<close>
  | AddingPending string              \<comment> \<open>"Adding pending asset from object path %s"\<close>
  | NotPossibleWhileLoading string    \<comment> \<open>"Adding asset from object path %s is not possible while loading assets"\<close>
  | AddingFromObjectPath string       \<comment> \<open>"Adding asset from object path %s"\<close>
  | AddingFromAssetData string        \<comment> \<open>"Adding asset from asset data %s"\<close>
  | CouldNotAdd string                \<comment> \<open>"Could not add asset from object path %s"\<close>

fun verbosity :: "LogMessage \<Rightarrow> ELogVerbosity" where
  "verbosity FinishedLoading = Verbose"
| "verbosity (AddingPending p) = Verbose"
| "verbosity (NotPossibleWhileLoading p) = Warning"
| "verbosity (AddingFromObjectPath p) = Verbose"
| "verbosity (AddingFromAssetData n) = Verbose"
| "verbosity (CouldNotAdd p) = Warning"

text \<open>The constructor leaves both containers empty (it only binds the callback).\<close>

definition AssetDataList_new :: "'ad AssetDataList" where
  "AssetDataList_new = \<lparr>items = [], pendingObjectPaths = [], listRefreshRequests = 0\<rparr>"

text \<open>
  \<open>AssetDataList::_AddAssetInternal\<close>: an early return with a warning while the
  registry is loading; otherwise the asset data is looked up and, when its asset
  loads, appended to \<open>_items\<close> and a list refresh is requested; when it does not load,
  only a warning is written. The source converts the path to an \<open>FString\<close> for the
  log and to an \<open>FName\<close> for the lookup; here the path stands for both, and
  \<open>GetAssetByObjectPath\<close> is the lookup of the path as it was passed in.
\<close>

definition AddAssetInternal ::
  "('ad, 'obj) Engine \<Rightarrow> string \<Rightarrow> 'ad AssetDataList \<Rightarrow> LogMessage list \<times> 'ad AssetDataList" where
  "AddAssetInternal eng objectPath this =
     (if IsLoadingAssets eng then ([NotPossibleWhileLoading objectPath], this)
      else
        let assetData = GetAssetByObjectPath eng objectPath;
            lg = [AddingFromObjectPath objectPath, AddingFromAssetData (GetFullName eng assetData)]
        in (case GetAsset eng assetData of
              Some asset \<Rightarrow>
                (lg, this\<lparr>items := items this @ [assetData],
                          listRefreshRequests := Suc (listRefreshRequests this)\<rparr>)
            | None \<Rightarrow> (lg @ [CouldNotAdd objectPath], this)))"

text \<open>
  The range-for loop of \<open>_HandleFilesLoaded\<close> over \<open>_pendingObjectPaths\<close>. The body
  never touches the vector it iterates over, so the loop runs over the paths as they
  were when it started.
\<close>

fun HandleFilesLoaded_loop ::
  "('ad, 'obj) Engine \<Rightarrow> string list \<Rightarrow> 'ad AssetDataList \<Rightarrow> LogMessage list \<times> 'ad AssetDataList" where
  "HandleFilesLoaded_loop eng [] this = ([], this)"
| "HandleFilesLoaded_loop eng (objectPath # rest) this =
     (case AddAssetInternal eng objectPath this of
        (lg1, this1) \<Rightarrow>
          (case HandleFilesLoaded_loop eng rest this1 of
             (lg2, this2) \<Rightarrow> (lg1 @ lg2, this2)))"

text \<open>
  \<open>AssetDataList::_HandleFilesLoaded\<close>, the function the constructor binds to the
  registry's \<open>OnFilesLoaded\<close> delegate: log, run the loop, clear the pending paths.
\<close>

definition HandleFilesLoaded ::
  "('ad, 'obj) Engine \<Rightarrow> 'ad AssetDataList \<Rightarrow> LogMessage list \<times> 'ad AssetDataList" where
  "HandleFilesLoaded eng this =
     (case HandleFilesLoaded_loop eng (pendingObjectPaths this) this of
        (lg, this') \<Rightarrow> (FinishedLoading # lg, this'\<lparr>pendingObjectPaths := []\<rparr>))"

text \<open>\<open>AssetDataList::AddAsset\<close>.\<close>

definition AddAsset ::
  "('ad, 'obj) Engine \<Rightarrow> string \<Rightarrow> 'ad AssetDataList \<Rightarrow> LogMessage list \<times> 'ad AssetDataList" where
  "AddAsset eng objectPath this =
     (if IsLoadingAssets eng
      then ([AddingPending objectPath],
            this\<lparr>pendingObjectPaths := pendingObjectPaths this @ [objectPath]\<rparr>)
      else AddAssetInternal eng objectPath this)"

text \<open>
  Reading the log back: every call of \<open>_AddAssetInternal\<close> writes exactly one line
  that opens it, either the warning of the early return or "Adding asset from object
  path", each with the path it was called with. \<open>processedPaths\<close> collects these
  paths in the order the lines were written.
\<close>

fun processedPath :: "LogMessage \<Rightarrow> string option" where
  "processedPath (NotPossibleWhileLoading p) = Some p"
| "processedPath (AddingFromObjectPath p) = Some p"
| "processedPath FinishedLoading = None"
| "processedPath (AddingPending p) = None"
| "processedPath (AddingFromAssetData n) = None"
| "processedPath (CouldNotAdd p) = None"

definition processedPaths :: "LogMessage list \<Rightarrow> string list" where
  "processedPaths lg = List.map_filter processedPath lg"

text \<open>The entries a run over \<open>paths\<close> adds when the registry has finished loading.\<close>

definition loadable :: "('ad, 'obj) Engine \<Rightarrow> string list \<Rightarrow> 'ad list" where
  "loadable eng paths =
     filter (\<lambda>assetData. GetAsset eng assetData \<noteq> None) (map (GetAssetByObjectPath eng) paths)"

text \<open>Concrete inputs on which the statements below are evaluated.\<close>

definition sampleEngine :: "bool \<Rightarrow> (string, nat) Engine" where
  "sampleEngine loading =
     \<lparr>IsLoadingAssets = loading,
      GetAssetByObjectPath = (\<lambda>p. p),
      GetAsset = (\<lambda>a. if a = ''/Game/B'' then None else Some (length a)),
      GetFullName = (\<lambda>a. ''Blueprint '' @ a)\<rparr>"

definition sampleList :: "string AssetDataList" where
  "sampleList =
     \<lparr>items = [''/Game/Z''], pendingObjectPaths = [''/Game/A'', ''/Game/B''],
      listRefreshRequests = 1\<rparr>"


section \<open>VecMath (Source/CesiumRuntime/Private/VecMath.h)\<close>

text \<open>
  The header declares the conversions; their bodies are in \<open>VecMath.cpp\<close>, which is
  not among the sources. The value types are those of the declarations:
  \<open>FMatrix\<close> holds \<open>float M[4][4]\<close>, \<open>glm::dvec3\<close>, \<open>glm::dvec4\<close> and \<open>glm::dmat4\<close>
  hold doubles, \<open>glm::dmat4\<close> as four columns. A \<open>float\<close> is its 32-bit pattern, a
  \<open>double\<close> its 64-bit pattern, so equality of two results is equality bit by bit.
\<close>

type_synonym float = "32 word"
type_synonym double = "64 word"

record 'a vec3 =
  x3 :: 'a
  y3 :: 'a
  z3 :: 'a

record 'a vec4 =
  x4 :: 'a
  y4 :: 'a
  z4 :: 'a
  w4 :: 'a

text \<open>\<open>FMatrix\<close>: \<open>Mi\<close> is the row \<open>M[i][0..3]\<close>.\<close>

record FMatrix =
  M0 :: "float vec4"
  M1 :: "float vec4"
  M2 :: "float vec4"
  M3 :: "float vec4"

text \<open>\<open>glm::dmat4\<close>: \<open>colj\<close> is the column \<open>m[j]\<close>.\<close>

record dmat4 =
  col0 :: "double vec4"
  col1 :: "double vec4"
  col2 :: "double vec4"
  col3 :: "double vec4"

text \<open>The double constant \<open>1.0\<close> (IEEE-754 binary64).\<close>

definition double_1 :: double where
  "double_1 = 0x3FF0000000000000"

text \<open>
  The conversion of a \<open>float\<close> to a \<open>double\<close> is the language's, not the
  repository's: every function below takes it as the parameter \<open>cast\<close>.
\<close>

definition cast4 :: "(float \<Rightarrow> double) \<Rightarrow> float vec4 \<Rightarrow> double vec4" where
  "cast4 cast v = \<lparr>x4 = cast (x4 v), y4 = cast (y4 v), z4 = cast (z4 v), w4 = cast (w4 v)\<rparr>"

text \<open>
  Modelled from the spec: the body of \<open>VecMath::createMatrix4D(const FMatrix&)\<close> is
  missing. The spec (4.1, operation 1) converts the row-major single-precision matrix
  into a column-major double-precision matrix such that the result applied to a column
  vector matches the source applied to a row vector: column \<open>j\<close> of the result is row
  \<open>j\<close> of the source, each component converted to double.
\<close>

definition createMatrix4D :: "(float \<Rightarrow> double) \<Rightarrow> FMatrix \<Rightarrow> dmat4" where
  "createMatrix4D cast m =
     \<lparr>col0 = cast4 cast (M0 m), col1 = cast4 cast (M1 m),
      col2 = cast4 cast (M2 m), col3 = cast4 cast (M3 m)\<rparr>"

text \<open>
  Modelled from the spec: the bodies of the three translation overloads of
  \<open>VecMath::createMatrix4D\<close> are missing. The spec (4.1, operation 2): the same as
  operation 1, but the translation column of the result is replaced by the override,
  given as four scalar components, as a 4-component double vector, or as a
  3-component double vector with w implicitly 1.0.
\<close>

definition createMatrix4D_scalars ::
  "(float \<Rightarrow> double) \<Rightarrow> FMatrix \<Rightarrow> double \<Rightarrow> double \<Rightarrow> double \<Rightarrow> double \<Rightarrow> dmat4" where
  "createMatrix4D_scalars cast m tx ty tz tw =
     (createMatrix4D cast m)\<lparr>col3 := \<lparr>x4 = tx, y4 = ty, z4 = tz, w4 = tw\<rparr>\<rparr>"

definition createMatrix4D_dvec4 :: "(float \<Rightarrow> double) \<Rightarrow> FMatrix \<Rightarrow> double vec4 \<Rightarrow> dmat4" where
  "createMatrix4D_dvec4 cast m translation = (createMatrix4D cast m)\<lparr>col3 := translation\<rparr>"

definition createMatrix4D_dvec3 :: "(float \<Rightarrow> double) \<Rightarrow> FMatrix \<Rightarrow> double vec3 \<Rightarrow> dmat4" where
  "createMatrix4D_dvec3 cast m translation =
     (createMatrix4D cast m)
       \<lparr>col3 := \<lparr>x4 = x3 translation, y4 = y3 translation, z4 = z3 translation, w4 = double_1\<rparr>\<rparr>"


section \<open>Properties of AssetDataList\<close>

lemma AddAssetInternal_loading:
  "IsLoadingAssets eng \<Longrightarrow>
   AddAssetInternal eng p this = ([NotPossibleWhileLoading p], this)"
  by (simp add: AddAssetInternal_def)

lemma AddAssetInternal_null:
  "\<not> IsLoadingAssets eng \<Longrightarrow> GetAsset eng (GetAssetByObjectPath eng p) = None \<Longrightarrow>
   AddAssetInternal eng p this =
     ([AddingFromObjectPath p, AddingFromAssetData (GetFullName eng (GetAssetByObjectPath eng p)),
       CouldNotAdd p], this)"
  by (simp add: AddAssetInternal_def Let_def)

lemma AddAssetInternal_loaded:
  "\<not> IsLoadingAssets eng \<Longrightarrow> GetAsset eng (GetAssetByObjectPath eng p) = Some asset \<Longrightarrow>
   AddAssetInternal eng p this =
     ([AddingFromObjectPath p, AddingFromAssetData (GetFullName eng (GetAssetByObjectPath eng p))],
      this\<lparr>items := items this @ [GetAssetByObjectPath eng p],
           listRefreshRequests := Suc (listRefreshRequests this)\<rparr>)"
  by (simp add: AddAssetInternal_def Let_def)

text \<open>Each call writes one opening line, with its own path.\<close>

lemma AddAssetInternal_processedPaths:
  "processedPaths (fst (AddAssetInternal eng p this)) = [p]"
  by (simp add: AddAssetInternal_def processedPaths_def Let_def split: option.split)

lemma processedPaths_append:
  "processedPaths (xs @ ys) = processedPaths xs @ processedPaths ys"
  by (simp add: processedPaths_def map_filter_def)

lemma processedPaths_Cons_FinishedLoading:
  "processedPaths (FinishedLoading # lg) = processedPaths lg"
  by (simp add: processedPaths_def)

text \<open>One round of the loop, for the log and for the widget.\<close>

lemma loop_Cons_fst:
  "fst (HandleFilesLoaded_loop eng (p # ps) this) =
     fst (AddAssetInternal eng p this)
       @ fst (HandleFilesLoaded_loop eng ps (snd (AddAssetInternal eng p this)))"
  by (simp split: prod.split)

lemma loop_Cons_snd:
  "snd (HandleFilesLoaded_loop eng (p # ps) this) =
     snd (HandleFilesLoaded_loop eng ps (snd (AddAssetInternal eng p this)))"
  by (simp split: prod.split)

text \<open>The loop calls \<open>_AddAssetInternal\<close> once per path, in the order of the vector.\<close>

lemma loop_processedPaths:
  "processedPaths (fst (HandleFilesLoaded_loop eng ps this)) = ps"
proof (induction ps arbitrary: this)
  case Nil
  show ?case by (simp add: processedPaths_def)
next
  case (Cons p ps)
  show ?case
    unfolding loop_Cons_fst processedPaths_append
    by (simp add: AddAssetInternal_processedPaths Cons.IH)
qed

text \<open>Once the registry has finished, the loop appends the loadable assets in order.\<close>

lemma loop_items:
  "\<not> IsLoadingAssets eng \<Longrightarrow>
   items (snd (HandleFilesLoaded_loop eng ps this)) = items this @ loadable eng ps"
proof (induction ps arbitrary: this)
  case Nil
  show ?case by (simp add: loadable_def)
next
  case (Cons p ps)
  show ?case
  proof (cases "GetAsset eng (GetAssetByObjectPath eng p)")
    case None
    then show ?thesis
      unfolding loop_Cons_snd
      using Cons.prems by (simp add: Cons.IH AddAssetInternal_null loadable_def)
  next
    case (Some asset)
    then show ?thesis
      unfolding loop_Cons_snd
      using Cons.prems by (simp add: Cons.IH AddAssetInternal_loaded loadable_def)
  qed
qed

text \<open>While the registry is still loading, every call in the loop returns early.\<close>

lemma loop_while_loading:
  "IsLoadingAssets eng \<Longrightarrow> snd (HandleFilesLoaded_loop eng ps this) = this"
proof (induction ps arbitrary: this)
  case Nil
  show ?case by simp
next
  case (Cons p ps)
  show ?case
    unfolding loop_Cons_snd
    using Cons.prems by (simp add: Cons.IH AddAssetInternal_loading)
qed

text \<open>The widget after the loop: the calls of \<open>_AddAssetInternal\<close>, path after path.\<close>

lemma loop_snd_foldl:
  "snd (HandleFilesLoaded_loop eng ps this) =
     foldl (\<lambda>w p. snd (AddAssetInternal eng p w)) this ps"
proof (induction ps arbitrary: this)
  case Nil
  show ?case by simp
next
  case (Cons p ps)
  show ?case
    unfolding loop_Cons_snd by (simp add: Cons.IH)
qed

lemma HandleFilesLoaded_fst:
  "fst (HandleFilesLoaded eng this) =
     FinishedLoading # fst (HandleFilesLoaded_loop eng (pendingObjectPaths this) this)"
  by (simp add: HandleFilesLoaded_def split: prod.split)

lemma HandleFilesLoaded_snd:
  "snd (HandleFilesLoaded eng this) =
     (snd (HandleFilesLoaded_loop eng (pendingObjectPaths this) this))\<lparr>pendingObjectPaths := []\<rparr>"
  by (simp add: HandleFilesLoaded_def split: prod.split)

text \<open>
  A callback that fires while the registry still reports loading drops the pending
  paths: each is refused with a warning, and the vector is cleared all the same.
\<close>

lemma HandleFilesLoaded_while_loading:
  "IsLoadingAssets eng \<Longrightarrow>
   snd (HandleFilesLoaded eng this) = this\<lparr>pendingObjectPaths := []\<rparr>"
  by (simp add: HandleFilesLoaded_snd loop_while_loading)

text \<open>
  C9. A call of \<open>AddAsset\<close> while the registry reports \<open>IsLoadingAssets\<close> (engine
  \<open>reg\<close>) appends the object path to the pending paths and changes nothing else, so
  the displayed items stay as they are. When \<open>OnFilesLoaded\<close> fires (engine \<open>reg'\<close>,
  widget \<open>this'\<close>), \<open>_HandleFilesLoaded\<close> calls \<open>_AddAssetInternal\<close> on every pending
  path, in the order of the vector (which, paths being appended at its end, is the
  order in which they were added), and leaves the vector empty: the log shows one
  call per pending path in that order, and the widget is the result of these calls
  one after the other, with the vector cleared. If the registry has finished by
  then, the items gain the loadable assets of these paths, in that order.
\<close>

theorem AddAsset_pending_HandleFilesLoaded:
  assumes "IsLoadingAssets reg"
  shows "AddAsset reg objectPath this =
           ([AddingPending objectPath],
            this\<lparr>pendingObjectPaths := pendingObjectPaths this @ [objectPath]\<rparr>)
       \<and> items (snd (AddAsset reg objectPath this)) = items this
       \<and> processedPaths (fst (HandleFilesLoaded reg' this')) = pendingObjectPaths this'
       \<and> snd (HandleFilesLoaded reg' this') =
           (foldl (\<lambda>w p. snd (AddAssetInternal reg' p w)) this' (pendingObjectPaths this'))
             \<lparr>pendingObjectPaths := []\<rparr>
       \<and> pendingObjectPaths (snd (HandleFilesLoaded reg' this')) = []
       \<and> (\<not> IsLoadingAssets reg' \<longrightarrow>
            items (snd (HandleFilesLoaded reg' this'))
              = items this' @ loadable reg' (pendingObjectPaths this'))"
proof -
  have 1: "AddAsset reg objectPath this =
           ([AddingPending objectPath],
            this\<lparr>pendingObjectPaths := pendingObjectPaths this @ [objectPath]\<rparr>)"
    using assms by (simp add: AddAsset_def)
  have 2: "items (snd (AddAsset reg objectPath this)) = items this"
    by (simp add: 1)
  have 3: "processedPaths (fst (HandleFilesLoaded reg' this')) = pendingObjectPaths this'"
    by (simp add: HandleFilesLoaded_fst processedPaths_Cons_FinishedLoading loop_processedPaths)
  have 4: "pendingObjectPaths (snd (HandleFilesLoaded reg' this')) = []"
    by (simp add: HandleFilesLoaded_snd)
  have 5: "\<not> IsLoadingAssets reg' \<longrightarrow>
            items (snd (HandleFilesLoaded reg' this'))
              = items this' @ loadable reg' (pendingObjectPaths this')"
    by (simp add: HandleFilesLoaded_snd loop_items)
  have 6: "snd (HandleFilesLoaded reg' this') =
           (foldl (\<lambda>w p. snd (AddAssetInternal reg' p w)) this' (pendingObjectPaths this'))
             \<lparr>pendingObjectPaths := []\<rparr>"
    by (simp add: HandleFilesLoaded_snd loop_snd_foldl)
  from 1 2 3 4 5 6 show ?thesis by blast
qed

text \<open>
  The statement at a concrete run: \<open>/Game/C\<close> is added while the registry is loading
  and joins \<open>/Game/A\<close> and \<open>/Game/B\<close>; then the callback fires with the registry
  finished, the three paths are processed in this order, and the two that load are
  appended to the items.
\<close>

theorem AddAsset_pending_HandleFilesLoaded_witness:
  "IsLoadingAssets (sampleEngine True)
   \<and> AddAsset (sampleEngine True) ''/Game/C'' sampleList =
       ([AddingPending ''/Game/C''],
        sampleList\<lparr>pendingObjectPaths := [''/Game/A'', ''/Game/B'', ''/Game/C'']\<rparr>)
   \<and> items (snd (AddAsset (sampleEngine True) ''/Game/C'' sampleList)) = [''/Game/Z'']
   \<and> processedPaths (fst (HandleFilesLoaded (sampleEngine False)
         (sampleList\<lparr>pendingObjectPaths := [''/Game/A'', ''/Game/B'', ''/Game/C'']\<rparr>)))
       = [''/Game/A'', ''/Game/B'', ''/Game/C'']
   \<and> pendingObjectPaths (snd (HandleFilesLoaded (sampleEngine False)
         (sampleList\<lparr>pendingObjectPaths := [''/Game/A'', ''/Game/B'', ''/Game/C'']\<rparr>))) = []
   \<and> \<not> IsLoadingAssets (sampleEngine False)
   \<and> items (snd (HandleFilesLoaded (sampleEngine False)
         (sampleList\<lparr>pendingObjectPaths := [''/Game/A'', ''/Game/B'', ''/Game/C'']\<rparr>)))
       = [''/Game/Z'', ''/Game/A'', ''/Game/C'']"
proof -
  let ?pending = "sampleList\<lparr>pendingObjectPaths := [''/Game/A'', ''/Game/B'', ''/Game/C'']\<rparr>"
  have loading: "IsLoadingAssets (sampleEngine True)"
    by (simp add: sampleEngine_def)
  have finished: "\<not> IsLoadingAssets (sampleEngine False)"
    by (simp add: sampleEngine_def)
  note run = AddAsset_pending_HandleFilesLoaded
    [OF loading, of "''/Game/C''" sampleList "sampleEngine False" ?pending]
  from run have a: "AddAsset (sampleEngine True) ''/Game/C'' sampleList =
      ([AddingPending ''/Game/C''],
       sampleList\<lparr>pendingObjectPaths := pendingObjectPaths sampleList @ [''/Game/C'']\<rparr>)"
    by (rule conjunct1)
  from run have b: "items (snd (AddAsset (sampleEngine True) ''/Game/C'' sampleList))
      = items sampleList"
    by blast
  from run have c: "processedPaths (fst (HandleFilesLoaded (sampleEngine False) ?pending))
      = pendingObjectPaths ?pending"
    by blast
  from run have d: "pendingObjectPaths (snd (HandleFilesLoaded (sampleEngine False) ?pending)) = []"
    by blast
  from run finished have e: "items (snd (HandleFilesLoaded (sampleEngine False) ?pending))
      = items ?pending @ loadable (sampleEngine False) (pendingObjectPaths ?pending)"
    by blast
  have pending: "pendingObjectPaths sampleList @ [''/Game/C'']
      = [''/Game/A'', ''/Game/B'', ''/Game/C'']"
    by (simp add: sampleList_def)
  have loaded: "items ?pending @ loadable (sampleEngine False) (pendingObjectPaths ?pending)
      = [''/Game/Z'', ''/Game/A'', ''/Game/C'']"
    by (simp add: sampleList_def sampleEngine_def loadable_def)
  have shown: "items sampleList = [''/Game/Z'']"
    by (simp add: sampleList_def)
  from a pending have a': "AddAsset (sampleEngine True) ''/Game/C'' sampleList =
      ([AddingPending ''/Game/C''], ?pending)"
    by simp
  from c have c': "processedPaths (fst (HandleFilesLoaded (sampleEngine False) ?pending))
      = [''/Game/A'', ''/Game/B'', ''/Game/C'']"
    by simp
  from loading a' b shown c' d finished e loaded show ?thesis
    by simp
qed

text \<open>
  C10. \<open>_AddAssetInternal\<close> appends an entry to the items if and only if the registry
  is not loading and the asset of the object path loads (\<open>GetAsset\<close> is not null). In
  that case the entry is the asset data of the path and a list refresh is requested;
  on the two other branches the widget is returned exactly as it was.
\<close>

theorem AddAssetInternal_appends_iff:
  "((\<exists>entry. items (snd (AddAssetInternal eng objectPath this)) = items this @ [entry])
      \<longleftrightarrow> (\<not> IsLoadingAssets eng \<and> GetAsset eng (GetAssetByObjectPath eng objectPath) \<noteq> None))
   \<and> (\<not> IsLoadingAssets eng \<and> GetAsset eng (GetAssetByObjectPath eng objectPath) \<noteq> None \<longrightarrow>
        snd (AddAssetInternal eng objectPath this)
          = this\<lparr>items := items this @ [GetAssetByObjectPath eng objectPath],
                 listRefreshRequests := Suc (listRefreshRequests this)\<rparr>)
   \<and> (IsLoadingAssets eng \<or> GetAsset eng (GetAssetByObjectPath eng objectPath) = None \<longrightarrow>
        snd (AddAssetInternal eng objectPath this) = this)"
  by (auto simp add: AddAssetInternal_def Let_def split: option.split)

text \<open>
  The three branches at concrete inputs: an asset that loads, an asset that does not,
  and a registry that is still loading.
\<close>

theorem AddAssetInternal_appends_iff_witness:
  "snd (AddAssetInternal (sampleEngine False) ''/Game/A'' sampleList)
     = sampleList\<lparr>items := [''/Game/Z'', ''/Game/A''], listRefreshRequests := 2\<rparr>
   \<and> snd (AddAssetInternal (sampleEngine False) ''/Game/B'' sampleList) = sampleList
   \<and> snd (AddAssetInternal (sampleEngine True) ''/Game/A'' sampleList) = sampleList"
  using AddAssetInternal_appends_iff [of "sampleEngine False" "''/Game/A''" sampleList]
    AddAssetInternal_appends_iff [of "sampleEngine False" "''/Game/B''" sampleList]
    AddAssetInternal_appends_iff [of "sampleEngine True" "''/Game/A''" sampleList]
  by (simp add: sampleEngine_def sampleList_def)


section \<open>Properties of VecMath\<close>

text \<open>
  C2. For every single-precision matrix \<open>m\<close> and every translation \<open>(tx, ty, tz)\<close>,
  the three translation overloads of \<open>createMatrix4D\<close> return the same double matrix,
  bit for bit, when the 4-component vector and the scalar overload are given
  \<open>w = 1.0\<close>: \<open>createMatrix4D(m, dvec3(tx, ty, tz))\<close> is
  \<open>createMatrix4D(m, dvec4(tx, ty, tz, 1.0))\<close> is \<open>createMatrix4D(m, tx, ty, tz, 1.0)\<close>.
\<close>

theorem createMatrix4D_translation_overloads_agree:
  "createMatrix4D_dvec3 cast m \<lparr>x3 = tx, y3 = ty, z3 = tz\<rparr>
     = createMatrix4D_dvec4 cast m \<lparr>x4 = tx, y4 = ty, z4 = tz, w4 = double_1\<rparr>
   \<and> createMatrix4D_dvec4 cast m \<lparr>x4 = tx, y4 = ty, z4 = tz, w4 = double_1\<rparr>
     = createMatrix4D_scalars cast m tx ty tz double_1"
  by (simp add: createMatrix4D_dvec3_def createMatrix4D_dvec4_def createMatrix4D_scalars_def)

end
